theory Spec2Isabelle
  imports Main "HOL-Library.Multiset"
begin

section \<open>The vocabulary trainer of \<open>src/App.jsx\<close>\<close>

text \<open>
  The component \<open>App\<close> keeps four state variables, fetches the cards from the sheet,
  keeps those that are due, sorted by due time, and on a button click sends the new
  proficiency and the new due time of the displayed card back to the sheet.

  Conventions of the embedding.
  \<^item> An instant is the time value of a JavaScript \<open>Date\<close>: milliseconds since the epoch,
    an integer. \<open>new Date()\<close> reads the clock; the reading is an argument of the model.
    A \<open>Date\<close> built from a computed number is valid only within 8.64e15 milliseconds
    of the epoch (\<open>TimeClip\<close>); a clock reading is any integer.
  \<^item> \<open>new Date(s)\<close> on a string is the built-in parser. It is taken as a parameter
    \<open>parseDate\<close>: \<open>Some t\<close> is a date with time value \<open>t\<close>, \<open>None\<close> is an
    \<open>Invalid Date\<close>, whose time value is \<open>NaN\<close>.
  \<^item> A JavaScript number that may be \<open>NaN\<close> is an \<open>int option\<close>, \<open>None\<close> for \<open>NaN\<close>.
  \<^item> What the network answers is an argument of the model as well; the state
    variables of the component are a record that each function returns updated.
\<close>

subsection \<open>Data\<close>

type_synonym instant = int

type_synonym date_parser = "string \<Rightarrow> instant option"

text \<open>A row of the sheet, as the script returns it in the JSON array.\<close>

record VocabCard =
  ID :: string
  English :: string
  Cantonese :: string
  Jyutping :: string
  ProficiencyLevel :: int
  NextReviewTime :: string

text \<open>The four \<open>useState\<close> variables of \<open>App\<close> (lines 10 to 16).\<close>

record AppState =
  vocabCards :: "VocabCard list"
  currentCardIndex :: nat
  loading :: bool
  error :: "string option"

definition initialState :: AppState where
  "initialState = \<lparr>vocabCards = [], currentCardIndex = 0, loading = True, error = None\<rparr>"

text \<open>
  What \<open>await fetch(url)\<close> followed by \<open>await response.json()\<close> can do: the fetch
  rejects with an error carrying a message, or it resolves to a response with a status,
  whose body is a value of the expected shape, or is not, and then parsing or using it
  throws an error carrying a message inside the same \<open>try\<close> block.
\<close>

datatype 'a response = Rejected string | Response nat "string + 'a"

text \<open>The object that the script answers to \<open>updateVocab\<close>.\<close>

record UpdateResult =
  success :: bool
  message :: "string option"

text \<open>The query parameters of the update request (lines 64 to 69).\<close>

record UpdateParams =
  param_action :: string
  param_id :: string
  param_proficiencyLevel :: int
  param_nextReviewTime :: instant

text \<open>
  What the environment supplies while one click is handled: the clock reading and the
  answer for the update request, then the clock reading and the answer for the fetch
  that follows a successful update.
\<close>

record Env =
  update_clock :: instant
  update_response :: "UpdateResult response"
  fetch_clock :: instant
  fetch_response :: "VocabCard list response"

datatype js_error = TypeError

subsection \<open>Built-ins\<close>

text \<open>Decimal digits of a number, for the template literal \<open>${response.status}\<close>.\<close>

definition digit_char :: "nat \<Rightarrow> char" where
  "digit_char d = ''0123456789'' ! d"

function string_of_nat :: "nat \<Rightarrow> string" where
  "string_of_nat n =
     (if n < 10 then [digit_char n]
      else string_of_nat (n div 10) @ [digit_char (n mod 10)])"
  by pat_completeness auto
termination
  by (relation "measure (\<lambda>n. n)") auto

declare string_of_nat.simps [simp del]

text \<open>
  \<open>new Date(value)\<close> on a number: beyond 8.64e15 milliseconds either side of the epoch
  the date is invalid, and \<open>toISOString\<close> on an invalid date throws a \<open>RangeError\<close>,
  whose message is \<open>Invalid time value\<close>.
\<close>

definition TimeClip :: "int \<Rightarrow> instant option" where
  "TimeClip t = (if \<bar>t\<bar> \<le> 8640000000000000 then Some t else None)"

text \<open>\<open>response.ok\<close>: the status is in the range 200 to 299.\<close>

definition ok :: "nat \<Rightarrow> bool" where
  "ok status = (200 \<le> status \<and> status \<le> 299)"

text \<open>
  \<open>Array.prototype.sort(comparefn)\<close>. The comparator's result goes through
  \<open>SortCompare\<close>, which reads \<open>NaN\<close> as \<open>+0\<close>. ECMAScript fixes the result for a
  consistent comparator: the elements in non-decreasing order of the comparator, equal
  ones in their original order (the sort is stable). A stable insertion sort computes
  that result: an element is put before the first later element that it does not
  exceed.
\<close>

definition SortCompare :: "('a \<Rightarrow> 'a \<Rightarrow> int option) \<Rightarrow> 'a \<Rightarrow> 'a \<Rightarrow> int" where
  "SortCompare comparefn x y = (case comparefn x y of None \<Rightarrow> 0 | Some v \<Rightarrow> v)"

fun Array_insert :: "('a \<Rightarrow> 'a \<Rightarrow> int option) \<Rightarrow> 'a \<Rightarrow> 'a list \<Rightarrow> 'a list" where
  "Array_insert comparefn x [] = [x]"
| "Array_insert comparefn x (y # ys) =
     (if SortCompare comparefn x y \<le> 0 then x # y # ys
      else y # Array_insert comparefn x ys)"

fun Array_sort :: "('a \<Rightarrow> 'a \<Rightarrow> int option) \<Rightarrow> 'a list \<Rightarrow> 'a list" where
  "Array_sort comparefn [] = []"
| "Array_sort comparefn (x # xs) = Array_insert comparefn x (Array_sort comparefn xs)"

subsection \<open>Filtering and sorting the due cards (lines 35 to 43)\<close>

text \<open>
  The callback of \<open>filter\<close>: \<open>nextReview <= now\<close> compares the two time values, and
  a comparison with \<open>NaN\<close> is false.
\<close>

definition isDue :: "date_parser \<Rightarrow> instant \<Rightarrow> VocabCard \<Rightarrow> bool" where
  "isDue parseDate now c =
     (let nextReview = parseDate (NextReviewTime c)
      in case nextReview of None \<Rightarrow> False | Some t \<Rightarrow> t \<le> now)"

text \<open>
  The callback of \<open>sort\<close>: the difference of the two time values, \<open>NaN\<close> when one of the
  dates is invalid.
\<close>

definition byNextReviewTime :: "date_parser \<Rightarrow> VocabCard \<Rightarrow> VocabCard \<Rightarrow> int option" where
  "byNextReviewTime parseDate a b =
     (case (parseDate (NextReviewTime a), parseDate (NextReviewTime b)) of
        (Some ta, Some tb) \<Rightarrow> Some (ta - tb)
      | _ \<Rightarrow> None)"

definition dueCards :: "date_parser \<Rightarrow> instant \<Rightarrow> VocabCard list \<Rightarrow> VocabCard list" where
  "dueCards parseDate now data =
     Array_sort (byNextReviewTime parseDate) (filter (isDue parseDate now) data)"

subsection \<open>\<open>fetchVocabCards\<close> (lines 21 to 54)\<close>

text \<open>
  Lines 26 to 32, shared in shape by both requests: the value of the body, or the
  message of the error that is thrown.
\<close>

definition fetch_json :: "'a response \<Rightarrow> string + 'a" where
  "fetch_json r =
     (case r of
        Rejected m \<Rightarrow> Inl m
      | Response status body \<Rightarrow>
          if \<not> ok status then Inl (''HTTP error! status: '' @ string_of_nat status)
          else body)"

definition fetchVocabCards ::
  "date_parser \<Rightarrow> VocabCard list response \<Rightarrow> instant \<Rightarrow> AppState \<Rightarrow> AppState" where
  "fetchVocabCards parseDate r now st =
     (let st1 = st\<lparr>loading := True\<rparr>;
          st2 = st1\<lparr>error := None\<rparr>;
          st3 = (case fetch_json r of
                   Inr data \<Rightarrow>
                     st2\<lparr>vocabCards := dueCards parseDate now data, currentCardIndex := 0\<rparr>
                 | Inl m \<Rightarrow>
                     st2\<lparr>error := Some (''Failed to fetch vocabulary: '' @ m)\<rparr>)
      in st3\<lparr>loading := False\<rparr>)"

subsection \<open>\<open>updateCardState\<close> (lines 58 to 90)\<close>

text \<open>
  Lines 61 to 69: the parameters of the request, or the message of the \<open>RangeError\<close>
  that \<open>toISOString\<close> throws when the new due time is not a valid date.
\<close>

definition updateParams :: "instant \<Rightarrow> string \<Rightarrow> int \<Rightarrow> string + UpdateParams" where
  "updateParams now cardId level =
     (let nextReviewTime = TimeClip (now + 90 * 60 * 1000)
      in case nextReviewTime of
           None \<Rightarrow> Inl ''Invalid time value''
         | Some t \<Rightarrow>
             Inr \<lparr>param_action = ''updateVocab'', param_id = cardId,
                  param_proficiencyLevel = level, param_nextReviewTime = t\<rparr>)"

text \<open>Lines 72 to 79: nothing, or the message of the error that is thrown.\<close>

definition update_outcome :: "UpdateResult response \<Rightarrow> string + unit" where
  "update_outcome r =
     (case fetch_json r of
        Inl m \<Rightarrow> Inl m
      | Inr result \<Rightarrow>
          if \<not> success result then
            Inl (case message result of
                   None \<Rightarrow> ''Failed to update card.''
                 | Some m \<Rightarrow> if m = [] then ''Failed to update card.'' else m)
          else Inr ())"

text \<open>
  In the source the function resolves to \<open>undefined\<close>: no value flows back to its
  caller. The model returns its two effects instead: first the request that goes to
  the sheet, if one is sent, second the component state that is left behind. An error
  thrown while the parameters are built is caught like any other, before the request.
\<close>

definition updateCardState ::
  "date_parser \<Rightarrow> Env \<Rightarrow> string \<Rightarrow> int \<Rightarrow> AppState \<Rightarrow> UpdateParams option \<times> AppState" where
  "updateCardState parseDate env cardId level st =
     (case updateParams (update_clock env) cardId level of
        Inl m \<Rightarrow> (None, st\<lparr>error := Some (''Failed to update card: '' @ m)\<rparr>)
      | Inr params \<Rightarrow>
          (Some params,
           case update_outcome (update_response env) of
             Inr _ \<Rightarrow> fetchVocabCards parseDate (fetch_response env) (fetch_clock env) st
           | Inl m \<Rightarrow> st\<lparr>error := Some (''Failed to update card: '' @ m)\<rparr>))"

subsection \<open>\<open>handleNextCard\<close> (lines 101 to 113)\<close>

text \<open>Lines 105 to 109.\<close>

definition newProficiency :: "int \<Rightarrow> int \<Rightarrow> int" where
  "newProficiency level proficiencyIncrease =
     (let n = level + proficiencyIncrease;
          n = (if n > 5 then 5 else n);
          n = (if n < 1 then 1 else n)
      in n)"

text \<open>
  The argument is optional and defaults to 1. With no cards the handler returns at
  once. Reading a property of \<open>vocabCards[currentCardIndex]\<close> throws a \<open>TypeError\<close>
  when the index is out of range. Otherwise the update is started. The handler returns
  \<open>undefined\<close> as well; the model gives the request that was sent, if any, and the
  state once the update has settled.
\<close>

definition handleNextCard ::
  "date_parser \<Rightarrow> Env \<Rightarrow> int option \<Rightarrow> AppState \<Rightarrow> js_error + (UpdateParams option \<times> AppState)" where
  "handleNextCard parseDate env arg st =
     (let proficiencyIncrease = (case arg of None \<Rightarrow> 1 | Some d \<Rightarrow> d)
      in if length (vocabCards st) = 0 then Inr (None, st)
         else if \<not> currentCardIndex st < length (vocabCards st) then Inl TypeError
         else
           let currentCard = vocabCards st ! currentCardIndex st;
               level = newProficiency (ProficiencyLevel currentCard) proficiencyIncrease;
               (sent, st') = updateCardState parseDate env (ID currentCard) level st
           in Inr (sent, st'))"

subsection \<open>What \<open>App\<close> renders (lines 117 to 139)\<close>

datatype View =
  LoadingView
| ErrorView string
| NoCardsDueView
| CardView "VocabCard option" nat

text \<open>
  Lines 119 to 139: the message that nothing is due, or the page with the current card
  (\<open>undefined\<close> when the index is out of range) and the number of due cards.
\<close>

definition cardsView :: "AppState \<Rightarrow> View" where
  "cardsView st =
     (if length (vocabCards st) = 0 then NoCardsDueView
      else CardView (if currentCardIndex st < length (vocabCards st)
                     then Some (vocabCards st ! currentCardIndex st) else None)
                    (length (vocabCards st)))"

text \<open>\<open>if (error)\<close>: \<open>null\<close> and the empty string are falsy.\<close>

definition render :: "AppState \<Rightarrow> View" where
  "render st =
     (if loading st then LoadingView
      else case error st of
        Some e \<Rightarrow> if e \<noteq> [] then ErrorView e else cardsView st
      | None \<Rightarrow> cardsView st)"


subsection \<open>Concrete inputs\<close>

text \<open>
  A parser that knows three ISO strings and their time values, and a snapshot of five
  cards: one due later, two due at the same instant, one whose date does not parse,
  one due earlier.
\<close>

definition exampleParseDate :: date_parser where
  "exampleParseDate s =
     (if s = ''2024-05-01T08:00:00.000Z'' then Some 1714550400000
      else if s = ''2024-05-01T09:00:00.000Z'' then Some 1714554000000
      else if s = ''2024-05-01T10:00:00.000Z'' then Some 1714557600000
      else None)"

definition exampleCard :: "string \<Rightarrow> int \<Rightarrow> string \<Rightarrow> VocabCard" where
  "exampleCard i p t =
     \<lparr>ID = i, English = ''tea'', Cantonese = ''caa'', Jyutping = ''caa4'',
      ProficiencyLevel = p, NextReviewTime = t\<rparr>"

definition exampleData :: "VocabCard list" where
  "exampleData =
     [exampleCard ''B'' 2 ''2024-05-01T10:00:00.000Z'',
      exampleCard ''C'' 5 ''2024-05-01T09:00:00.000Z'',
      exampleCard ''X'' 3 ''soon'',
      exampleCard ''A'' 1 ''2024-05-01T08:00:00.000Z'',
      exampleCard ''D'' 4 ''2024-05-01T09:00:00.000Z'']"

definition exampleNow :: instant where
  "exampleNow = 1714554000000"

definition exampleDue :: "VocabCard list" where
  "exampleDue =
     [exampleCard ''A'' 1 ''2024-05-01T08:00:00.000Z'',
      exampleCard ''C'' 5 ''2024-05-01T09:00:00.000Z'',
      exampleCard ''D'' 4 ''2024-05-01T09:00:00.000Z'']"

text \<open>The state once \<open>exampleDue\<close> is on display, and two environments for a click.\<close>

definition exampleState :: AppState where
  "exampleState =
     \<lparr>vocabCards = exampleDue, currentCardIndex = 0, loading = False, error = None\<rparr>"

definition exampleEnv :: Env where
  "exampleEnv =
     \<lparr>update_clock = 1714554060000,
      update_response = Response 200 (Inr \<lparr>success = True, message = None\<rparr>),
      fetch_clock = 1714554061000,
      fetch_response = Response 200 (Inr exampleData)\<rparr>"

definition failingEnv :: "instant \<Rightarrow> Env" where
  "failingEnv t =
     \<lparr>update_clock = t,
      update_response = Response 500 (Inr \<lparr>success = False, message = None\<rparr>),
      fetch_clock = t + 1000,
      fetch_response = Response 200 (Inr exampleData)\<rparr>"

text \<open>The same click with another answer to the update request.\<close>

definition answeredEnv :: "UpdateResult response \<Rightarrow> Env" where
  "answeredEnv r = exampleEnv\<lparr>update_response := r\<rparr>"

text \<open>A click at the last instant that a date can hold.\<close>

definition lateEnv :: Env where
  "lateEnv = exampleEnv\<lparr>update_clock := 8640000000000000\<rparr>"

subsection \<open>Auxiliary notions for the proofs\<close>

text \<open>
  The sort key that the comparator induces on cards with a valid date, and validity
  itself. On valid dates the sort of the model is the library's stable \<open>sort_key\<close>.
\<close>

definition nextReviewValue :: "date_parser \<Rightarrow> VocabCard \<Rightarrow> instant" where
  "nextReviewValue parseDate c =
     (case parseDate (NextReviewTime c) of None \<Rightarrow> 0 | Some t \<Rightarrow> t)"

definition validDate :: "date_parser \<Rightarrow> VocabCard \<Rightarrow> bool" where
  "validDate parseDate c = (parseDate (NextReviewTime c) \<noteq> None)"

section \<open>Properties\<close>

subsection \<open>The sort\<close>

lemma SortCompare_valid:
  assumes "validDate P a" "validDate P b"
  shows "(SortCompare (byNextReviewTime P) a b \<le> 0)
           = (nextReviewValue P a \<le> nextReviewValue P b)"
  using assms
  by (auto simp: SortCompare_def byNextReviewTime_def nextReviewValue_def validDate_def)

lemma Array_insert_insort:
  assumes "validDate P x" "\<forall>y \<in> set ys. validDate P y"
  shows "Array_insert (byNextReviewTime P) x ys = insort_key (nextReviewValue P) x ys"
  using assms
  by (induction ys) (simp_all add: SortCompare_valid)

lemma Array_sort_sort_key:
  assumes "\<forall>y \<in> set xs. validDate P y"
  shows "Array_sort (byNextReviewTime P) xs = sort_key (nextReviewValue P) xs"
  using assms
proof (induction xs)
  case Nil
  show ?case by simp
next
  case (Cons x xs)
  then have "Array_sort (byNextReviewTime P) xs = sort_key (nextReviewValue P) xs"
    by simp
  moreover have "\<forall>y \<in> set (sort_key (nextReviewValue P) xs). validDate P y"
    using Cons.prems by simp
  ultimately show ?case
    using Cons.prems by (simp add: Array_insert_insort)
qed

lemma isDue_iff: "isDue P now c = (\<exists>t. P (NextReviewTime c) = Some t \<and> t \<le> now)"
  by (simp add: isDue_def split: option.splits)

lemma isDue_validDate: "isDue P now c \<Longrightarrow> validDate P c"
  by (auto simp: isDue_iff validDate_def)

lemma dueCards_sort_key:
  "dueCards P now S = sort_key (nextReviewValue P) (filter (isDue P now) S)"
  unfolding dueCards_def
  by (rule Array_sort_sort_key) (auto intro: isDue_validDate)

lemma set_dueCards: "set (dueCards P now S) = {c \<in> set S. isDue P now c}"
  by (auto simp: dueCards_sort_key)

lemma mset_dueCards: "mset (dueCards P now S) = filter_mset (isDue P now) (mset S)"
  by (simp add: dueCards_sort_key)

lemma distinct_dueCards: "distinct S \<Longrightarrow> distinct (dueCards P now S)"
  by (simp add: dueCards_sort_key)

lemma sorted_dueCards: "sorted (map (nextReviewValue P) (dueCards P now S))"
  by (simp add: dueCards_sort_key)

lemma stable_dueCards:
  "filter (\<lambda>c. nextReviewValue P c = t) (dueCards P now S)
     = filter (\<lambda>c. nextReviewValue P c = t) (filter (isDue P now) S)"
  by (simp only: dueCards_sort_key sort_key_stable)

lemma valid_dueCards: "\<forall>c \<in> set (dueCards P now S). validDate P c"
  by (auto simp: set_dueCards intro: isDue_validDate)

subsection \<open>Evaluation on the concrete inputs\<close>

lemma dueCards_example: "dueCards exampleParseDate exampleNow exampleData = exampleDue"
  by (simp add: dueCards_def isDue_def byNextReviewTime_def SortCompare_def
      exampleParseDate_def exampleCard_def exampleData_def exampleNow_def exampleDue_def)

lemma string_of_nat_500: "string_of_nat 500 = ''500''"
  by (simp add: string_of_nat.simps digit_char_def)

lemma fetch_json_500: "fetch_json (Response 500 body) = Inl ''HTTP error! status: 500''"
  by (simp add: fetch_json_def ok_def string_of_nat_500)

lemma fetch_json_200: "fetch_json (Response 200 body) = body"
  by (simp add: fetch_json_def ok_def)

subsection \<open>Which cards are selected\<close>

text \<open>
  C1. Whatever the snapshot and the clock reading, a card is in the due list exactly
  when it is in the snapshot and its date parses to an instant not after the clock
  reading; a card due at the clock reading itself is in. Such a card occurs in the due
  list as often as in the snapshot, so once when the snapshot has it once.
\<close>

theorem dueCards_selects_due:
  "(c \<in> set (dueCards parseDate now S) \<longleftrightarrow>
      c \<in> set S \<and> (\<exists>t. parseDate (NextReviewTime c) = Some t \<and> t \<le> now))
   \<and> count (mset (dueCards parseDate now S)) c =
      (if \<exists>t. parseDate (NextReviewTime c) = Some t \<and> t \<le> now
       then count (mset S) c else 0)
   \<and> (distinct S \<longrightarrow> distinct (dueCards parseDate now S))"
  by (auto simp: set_dueCards mset_dueCards distinct_dueCards isDue_iff)

theorem dueCards_selects_due_witness:
  "distinct exampleData
   \<and> exampleParseDate (NextReviewTime (exampleCard ''C'' 5 ''2024-05-01T09:00:00.000Z''))
       = Some exampleNow
   \<and> exampleCard ''C'' 5 ''2024-05-01T09:00:00.000Z''
       \<in> set (dueCards exampleParseDate exampleNow exampleData)
   \<and> count (mset (dueCards exampleParseDate exampleNow exampleData))
       (exampleCard ''C'' 5 ''2024-05-01T09:00:00.000Z'') = 1
   \<and> distinct (dueCards exampleParseDate exampleNow exampleData)"
proof -
  have d: "distinct exampleData"
    by (simp add: exampleData_def exampleCard_def)
  have p: "exampleParseDate (NextReviewTime (exampleCard ''C'' 5 ''2024-05-01T09:00:00.000Z''))
       = Some exampleNow"
    by (simp add: exampleParseDate_def exampleCard_def exampleNow_def)
  have i: "exampleCard ''C'' 5 ''2024-05-01T09:00:00.000Z'' \<in> set exampleData"
    by (simp add: exampleData_def)
  have n: "count (mset exampleData) (exampleCard ''C'' 5 ''2024-05-01T09:00:00.000Z'') = 1"
    by (simp add: exampleData_def exampleCard_def)
  show ?thesis
    using dueCards_selects_due [of "exampleCard ''C'' 5 ''2024-05-01T09:00:00.000Z''"
        exampleParseDate exampleNow exampleData] d p i n
    by simp
qed

subsection \<open>The order of the due list\<close>

text \<open>
  C2. The due list is in non-decreasing order of the parsed due time, and the cards
  that share a due time stand in the order they have in the snapshot.
\<close>

theorem dueCards_sorted_stable:
  "sorted_wrt (\<lambda>a b. \<exists>ta tb. parseDate (NextReviewTime a) = Some ta
                        \<and> parseDate (NextReviewTime b) = Some tb \<and> ta \<le> tb)
      (dueCards parseDate now S)
   \<and> filter (\<lambda>c. parseDate (NextReviewTime c) = Some t) (dueCards parseDate now S)
      = (if t \<le> now then filter (\<lambda>c. parseDate (NextReviewTime c) = Some t) S else [])"
proof
  have ord: "sorted_wrt (\<lambda>a b. nextReviewValue parseDate a \<le> nextReviewValue parseDate b)
          (dueCards parseDate now S)"
    using sorted_dueCards [of parseDate now S] by (simp add: sorted_map)
  show "sorted_wrt (\<lambda>a b. \<exists>ta tb. parseDate (NextReviewTime a) = Some ta
                        \<and> parseDate (NextReviewTime b) = Some tb \<and> ta \<le> tb)
      (dueCards parseDate now S)"
  proof (rule sorted_wrt_mono_rel [OF _ ord])
    fix x y
    assume xin: "x \<in> set (dueCards parseDate now S)"
      and yin: "y \<in> set (dueCards parseDate now S)"
      and le: "nextReviewValue parseDate x \<le> nextReviewValue parseDate y"
    from valid_dueCards xin have "validDate parseDate x" by blast
    then obtain ta where "parseDate (NextReviewTime x) = Some ta"
      by (auto simp: validDate_def)
    moreover from valid_dueCards yin have "validDate parseDate y" by blast
    then obtain tb where "parseDate (NextReviewTime y) = Some tb"
      by (auto simp: validDate_def)
    ultimately show "\<exists>ta tb. parseDate (NextReviewTime x) = Some ta
                    \<and> parseDate (NextReviewTime y) = Some tb \<and> ta \<le> tb"
      using le by (simp add: nextReviewValue_def)
  qed
next
  have "filter (\<lambda>c. parseDate (NextReviewTime c) = Some t) (dueCards parseDate now S)
      = filter (\<lambda>c. nextReviewValue parseDate c = t) (dueCards parseDate now S)"
    using valid_dueCards [of parseDate now S]
    by (intro filter_cong refl) (auto simp: validDate_def nextReviewValue_def)
  also have "\<dots> = filter (\<lambda>c. nextReviewValue parseDate c = t) (filter (isDue parseDate now) S)"
    by (rule stable_dueCards)
  also have "\<dots> = filter (\<lambda>c. parseDate (NextReviewTime c) = Some t \<and> t \<le> now) S"
    unfolding filter_filter
    by (rule filter_cong) (auto simp: isDue_iff nextReviewValue_def)
  also have "\<dots> = (if t \<le> now then filter (\<lambda>c. parseDate (NextReviewTime c) = Some t) S else [])"
    by simp
  finally show "filter (\<lambda>c. parseDate (NextReviewTime c) = Some t) (dueCards parseDate now S)
      = (if t \<le> now then filter (\<lambda>c. parseDate (NextReviewTime c) = Some t) S else [])" .
qed

theorem dueCards_sorted_stable_witness:
  "filter (\<lambda>c. exampleParseDate (NextReviewTime c) = Some exampleNow)
      (dueCards exampleParseDate exampleNow exampleData)
    = [exampleCard ''C'' 5 ''2024-05-01T09:00:00.000Z'',
       exampleCard ''D'' 4 ''2024-05-01T09:00:00.000Z'']"
proof -
  have "filter (\<lambda>c. exampleParseDate (NextReviewTime c) = Some exampleNow) exampleData
    = [exampleCard ''C'' 5 ''2024-05-01T09:00:00.000Z'',
       exampleCard ''D'' 4 ''2024-05-01T09:00:00.000Z'']"
    by (simp add: exampleData_def exampleCard_def exampleParseDate_def exampleNow_def)
  then show ?thesis
    using dueCards_sorted_stable [of exampleParseDate exampleNow exampleData exampleNow]
    by simp
qed

subsection \<open>The handler and the update\<close>

lemma fetch_json_Rejected: "fetch_json (Rejected m) = Inl m"
  by (simp add: fetch_json_def)

lemma fetch_json_not_ok:
  assumes "\<not> (200 \<le> status \<and> status \<le> 299)"
  shows "fetch_json (Response status body) = Inl (''HTTP error! status: '' @ string_of_nat status)"
  using assms by (simp add: fetch_json_def ok_def)

lemma fetch_json_ok:
  assumes "200 \<le> status" "status \<le> 299"
  shows "fetch_json (Response status body) = body"
  using assms by (simp add: fetch_json_def ok_def)

lemma update_outcome_Rejected: "update_outcome (Rejected m) = Inl m"
  by (simp add: update_outcome_def fetch_json_Rejected)

lemma update_outcome_not_ok:
  assumes "\<not> (200 \<le> status \<and> status \<le> 299)"
  shows "update_outcome (Response status body)
           = Inl (''HTTP error! status: '' @ string_of_nat status)"
  using assms by (simp add: update_outcome_def fetch_json_not_ok)

lemma update_outcome_body:
  assumes "200 \<le> status" "status \<le> 299"
  shows "update_outcome (Response status (Inl m)) = Inl m"
  using assms by (simp add: update_outcome_def fetch_json_ok)

lemma update_outcome_refused:
  assumes "200 \<le> status" "status \<le> 299" "\<not> success result"
  shows "update_outcome (Response status (Inr result))
           = Inl (case message result of
                    None \<Rightarrow> ''Failed to update card.''
                  | Some t \<Rightarrow> if t = [] then ''Failed to update card.'' else t)"
  using assms by (simp add: update_outcome_def fetch_json_ok)

lemma update_outcome_accepted:
  assumes "200 \<le> status" "status \<le> 299" "success result"
  shows "update_outcome (Response status (Inr result)) = Inr ()"
  using assms by (simp add: update_outcome_def fetch_json_ok)

lemma updateParams_valid:
  assumes "\<bar>now + 90 * 60 * 1000\<bar> \<le> 8640000000000000"
  shows "updateParams now cardId level =
           Inr \<lparr>param_action = ''updateVocab'', param_id = cardId,
                param_proficiencyLevel = level, param_nextReviewTime = now + 90 * 60 * 1000\<rparr>"
  using assms by (simp add: updateParams_def TimeClip_def)

lemma updateParams_invalid:
  assumes "\<not> \<bar>now + 90 * 60 * 1000\<bar> \<le> 8640000000000000"
  shows "updateParams now cardId level = Inl ''Invalid time value''"
  using assms by (simp add: updateParams_def TimeClip_def)

text \<open>
  When the new due time is not a valid date, nothing is sent and the error says so;
  when the sheet accepts the update, the cards are fetched again.
\<close>

lemma updateCardState_out_of_range:
  assumes "\<not> \<bar>update_clock env + 90 * 60 * 1000\<bar> \<le> 8640000000000000"
  shows "updateCardState P env cardId level st
           = (None, st\<lparr>error := Some ''Failed to update card: Invalid time value''\<rparr>)"
  using assms by (simp add: updateCardState_def updateParams_invalid)

lemma updateCardState_accepted:
  assumes "\<bar>update_clock env + 90 * 60 * 1000\<bar> \<le> 8640000000000000"
    and "update_response env = Response status (Inr result)"
    and "200 \<le> status" "status \<le> 299" "success result"
  shows "snd (updateCardState P env cardId level st)
           = fetchVocabCards P (fetch_response env) (fetch_clock env) st"
  using assms by (simp add: updateCardState_def updateParams_valid update_outcome_accepted)

lemma updateCardState_sent:
  assumes "fst (updateCardState P env cardId level st) = Some params"
  shows "params = \<lparr>param_action = ''updateVocab'', param_id = cardId,
                   param_proficiencyLevel = level,
                   param_nextReviewTime = update_clock env + 90 * 60 * 1000\<rparr>"
proof (cases "\<bar>update_clock env + 90 * 60 * 1000\<bar> \<le> 8640000000000000")
  case True
  with assms show ?thesis
    by (simp add: updateCardState_def updateParams_valid)
next
  case False
  with assms show ?thesis
    by (simp add: updateCardState_def updateParams_invalid)
qed

lemma updateCardState_valid_sent:
  assumes "\<bar>update_clock env + 90 * 60 * 1000\<bar> \<le> 8640000000000000"
  shows "fst (updateCardState P env cardId level st)
           = Some \<lparr>param_action = ''updateVocab'', param_id = cardId,
                    param_proficiencyLevel = level,
                    param_nextReviewTime = update_clock env + 90 * 60 * 1000\<rparr>"
  using assms by (simp add: updateCardState_def updateParams_valid)

lemma newProficiency_clamp: "newProficiency p d = max 1 (min 5 (p + d))"
  by (simp add: newProficiency_def Let_def max_def min_def)

lemma handleNextCard_in_range:
  assumes "currentCardIndex st < length (vocabCards st)"
  shows "handleNextCard P env arg st =
    Inr (updateCardState P env (ID (vocabCards st ! currentCardIndex st))
           (newProficiency (ProficiencyLevel (vocabCards st ! currentCardIndex st))
              (case arg of None \<Rightarrow> 1 | Some d \<Rightarrow> d)) st)"
proof -
  from assms have "vocabCards st \<noteq> []" by auto
  with assms show ?thesis
    by (simp add: handleNextCard_def Let_def split_def)
qed

lemma update_outcome_500: "update_outcome (Response 500 body) = Inl ''HTTP error! status: 500''"
  by (simp add: update_outcome_def fetch_json_500)

lemma exampleState_in_range: "currentCardIndex exampleState < length (vocabCards exampleState)"
  by (simp add: exampleState_def exampleDue_def)

lemma exampleState_current:
  "vocabCards exampleState ! currentCardIndex exampleState
     = exampleCard ''A'' 1 ''2024-05-01T08:00:00.000Z''"
  by (simp add: exampleState_def exampleDue_def)

lemma exampleEnv_clock: "\<bar>update_clock exampleEnv + 90 * 60 * 1000\<bar> \<le> 8640000000000000"
  by (simp add: exampleEnv_def)

lemma answeredEnv_clock:
  "\<bar>update_clock (answeredEnv r) + 90 * 60 * 1000\<bar> \<le> 8640000000000000"
  by (simp add: answeredEnv_def exampleEnv_def)

lemma answeredEnv_response: "update_response (answeredEnv r) = r"
  by (simp add: answeredEnv_def)

text \<open>
  C3. Whatever the proficiency of the displayed card and the increase, the proficiency
  that the handler computes is the sum clamped to the range 1 to 5: never outside it,
  5 plus 1 gives 5, 1 minus 1 gives 1, and no input is rejected. The handler passes
  that value to the update for every environment, and the request that is sent, which
  it is whenever the new due time is a valid date, carries it.
\<close>

theorem handleNextCard_clamps_proficiency:
  "newProficiency p d = max 1 (min 5 (p + d))
   \<and> 1 \<le> newProficiency p d \<and> newProficiency p d \<le> 5
   \<and> newProficiency 5 1 = 5 \<and> newProficiency 1 (- 1) = 1
   \<and> (currentCardIndex st < length (vocabCards st) \<longrightarrow>
        handleNextCard parseDate env (Some d) st
          = Inr (updateCardState parseDate env (ID (vocabCards st ! currentCardIndex st))
                   (max 1 (min 5 (ProficiencyLevel (vocabCards st ! currentCardIndex st) + d)))
                   st))
   \<and> (currentCardIndex st < length (vocabCards st)
        \<and> \<bar>update_clock env + 90 * 60 * 1000\<bar> \<le> 8640000000000000 \<longrightarrow>
        (\<exists>params st'.
            handleNextCard parseDate env (Some d) st = Inr (Some params, st')
          \<and> param_proficiencyLevel params =
              max 1 (min 5 (ProficiencyLevel (vocabCards st ! currentCardIndex st) + d))))"
proof -
  have call: "currentCardIndex st < length (vocabCards st) \<longrightarrow>
        handleNextCard parseDate env (Some d) st
          = Inr (updateCardState parseDate env (ID (vocabCards st ! currentCardIndex st))
                   (max 1 (min 5 (ProficiencyLevel (vocabCards st ! currentCardIndex st) + d)))
                   st)"
    by (simp add: handleNextCard_in_range newProficiency_clamp)
  have sent: "currentCardIndex st < length (vocabCards st)
        \<and> \<bar>update_clock env + 90 * 60 * 1000\<bar> \<le> 8640000000000000 \<longrightarrow>
        (\<exists>params st'.
            handleNextCard parseDate env (Some d) st = Inr (Some params, st')
          \<and> param_proficiencyLevel params =
              max 1 (min 5 (ProficiencyLevel (vocabCards st ! currentCardIndex st) + d)))"
  proof
    assume h: "currentCardIndex st < length (vocabCards st)
        \<and> \<bar>update_clock env + 90 * 60 * 1000\<bar> \<le> 8640000000000000"
    let ?c = "vocabCards st ! currentCardIndex st"
    let ?l = "max 1 (min 5 (ProficiencyLevel ?c + d))"
    let ?u = "updateCardState parseDate env (ID ?c) ?l st"
    from h call have "handleNextCard parseDate env (Some d) st = Inr (fst ?u, snd ?u)"
      by simp
    moreover from h have "fst ?u =
        Some \<lparr>param_action = ''updateVocab'', param_id = ID ?c,
              param_proficiencyLevel = ?l,
              param_nextReviewTime = update_clock env + 90 * 60 * 1000\<rparr>"
      by (simp add: updateCardState_valid_sent)
    ultimately show "\<exists>params st'.
            handleNextCard parseDate env (Some d) st = Inr (Some params, st')
          \<and> param_proficiencyLevel params = ?l"
      by simp
  qed
  have "newProficiency p d = max 1 (min 5 (p + d))
      \<and> 1 \<le> newProficiency p d \<and> newProficiency p d \<le> 5
      \<and> newProficiency 5 1 = 5 \<and> newProficiency 1 (- 1) = 1"
    by (simp add: newProficiency_clamp)
  with call sent show ?thesis
    by blast
qed

theorem handleNextCard_clamps_proficiency_witness:
  "currentCardIndex exampleState < length (vocabCards exampleState)
   \<and> \<bar>update_clock exampleEnv + 90 * 60 * 1000\<bar> \<le> 8640000000000000
   \<and> ProficiencyLevel (vocabCards exampleState ! currentCardIndex exampleState) = 1
   \<and> (\<exists>params st'.
          handleNextCard exampleParseDate exampleEnv (Some (- 1)) exampleState
            = Inr (Some params, st')
        \<and> param_proficiencyLevel params = 1)"
proof -
  have l: "ProficiencyLevel (vocabCards exampleState ! currentCardIndex exampleState) = 1"
    by (simp add: exampleState_current exampleCard_def)
  from handleNextCard_clamps_proficiency
         [where p = 1 and d = "- 1" and st = exampleState
            and parseDate = exampleParseDate and env = exampleEnv]
       exampleState_in_range exampleEnv_clock
  have "\<exists>params st'.
          handleNextCard exampleParseDate exampleEnv (Some (- 1)) exampleState
            = Inr (Some params, st')
        \<and> param_proficiencyLevel params =
            max 1 (min 5 (ProficiencyLevel
                            (vocabCards exampleState ! currentCardIndex exampleState) + - 1))"
    by blast
  then have "\<exists>params st'.
          handleNextCard exampleParseDate exampleEnv (Some (- 1)) exampleState
            = Inr (Some params, st')
        \<and> param_proficiencyLevel params = 1"
    by (simp add: l)
  with exampleState_in_range exampleEnv_clock l show ?thesis
    by blast
qed

text \<open>
  C4. Whatever the card, the proficiency and the answers of the network, a request that
  is sent carries as due time the clock reading taken when the update is made plus 90
  minutes, and the request is sent whenever that instant is a valid date (within
  8.64e15 milliseconds of the epoch); beyond that range nothing is sent. The card's
  former due time and the new proficiency play no part in it.
\<close>

theorem updateCardState_fixed_interval:
  "(\<forall>params. fst (updateCardState parseDate env cardId level st) = Some params \<longrightarrow>
       param_nextReviewTime params = update_clock env + 90 * 60 * 1000)
   \<and> (\<bar>update_clock env + 90 * 60 * 1000\<bar> \<le> 8640000000000000 \<longrightarrow>
        (\<exists>params. fst (updateCardState parseDate env cardId level st) = Some params
           \<and> param_nextReviewTime params = update_clock env + 90 * 60 * 1000))
   \<and> (currentCardIndex st < length (vocabCards st)
        \<and> \<bar>update_clock env + 90 * 60 * 1000\<bar> \<le> 8640000000000000 \<longrightarrow>
        (\<exists>params st'.
            handleNextCard parseDate env arg st = Inr (Some params, st')
          \<and> param_nextReviewTime params = update_clock env + 90 * 60 * 1000))
   \<and> (\<not> \<bar>update_clock env + 90 * 60 * 1000\<bar> \<le> 8640000000000000 \<longrightarrow>
        fst (updateCardState parseDate env cardId level st) = None)"
proof -
  have a: "\<forall>params. fst (updateCardState parseDate env cardId level st) = Some params \<longrightarrow>
       param_nextReviewTime params = update_clock env + 90 * 60 * 1000"
    using updateCardState_sent [of parseDate env cardId level st] by auto
  have b: "\<bar>update_clock env + 90 * 60 * 1000\<bar> \<le> 8640000000000000 \<longrightarrow>
        (\<exists>params. fst (updateCardState parseDate env cardId level st) = Some params
           \<and> param_nextReviewTime params = update_clock env + 90 * 60 * 1000)"
    by (simp add: updateCardState_valid_sent)
  have c: "currentCardIndex st < length (vocabCards st)
        \<and> \<bar>update_clock env + 90 * 60 * 1000\<bar> \<le> 8640000000000000 \<longrightarrow>
        (\<exists>params st'.
            handleNextCard parseDate env arg st = Inr (Some params, st')
          \<and> param_nextReviewTime params = update_clock env + 90 * 60 * 1000)"
  proof
    assume h: "currentCardIndex st < length (vocabCards st)
        \<and> \<bar>update_clock env + 90 * 60 * 1000\<bar> \<le> 8640000000000000"
    let ?c = "vocabCards st ! currentCardIndex st"
    let ?l = "newProficiency (ProficiencyLevel ?c) (case arg of None \<Rightarrow> 1 | Some d \<Rightarrow> d)"
    let ?u = "updateCardState parseDate env (ID ?c) ?l st"
    from h have "handleNextCard parseDate env arg st = Inr (fst ?u, snd ?u)"
      by (simp add: handleNextCard_in_range)
    moreover from h have "fst ?u =
        Some \<lparr>param_action = ''updateVocab'', param_id = ID ?c,
              param_proficiencyLevel = ?l,
              param_nextReviewTime = update_clock env + 90 * 60 * 1000\<rparr>"
      by (simp add: updateCardState_valid_sent)
    ultimately show "\<exists>params st'.
            handleNextCard parseDate env arg st = Inr (Some params, st')
          \<and> param_nextReviewTime params = update_clock env + 90 * 60 * 1000"
      by simp
  qed
  have d: "\<not> \<bar>update_clock env + 90 * 60 * 1000\<bar> \<le> 8640000000000000 \<longrightarrow>
        fst (updateCardState parseDate env cardId level st) = None"
    by (simp add: updateCardState_out_of_range)
  from a b c d show ?thesis
    by blast
qed

theorem updateCardState_fixed_interval_witness:
  "currentCardIndex exampleState < length (vocabCards exampleState)
   \<and> update_clock exampleEnv = 1714554060000
   \<and> \<bar>update_clock exampleEnv + 90 * 60 * 1000\<bar> \<le> 8640000000000000
   \<and> (\<exists>params st'.
          handleNextCard exampleParseDate exampleEnv (Some 1) exampleState
            = Inr (Some params, st')
        \<and> param_nextReviewTime params = 1714559460000)
   \<and> \<not> \<bar>update_clock lateEnv + 90 * 60 * 1000\<bar> \<le> 8640000000000000
   \<and> fst (updateCardState exampleParseDate lateEnv ''A'' 2 exampleState) = None"
proof -
  have c: "update_clock exampleEnv = 1714554060000"
    by (simp add: exampleEnv_def)
  have late: "\<not> \<bar>update_clock lateEnv + 90 * 60 * 1000\<bar> \<le> 8640000000000000"
    by (simp add: lateEnv_def)
  from updateCardState_fixed_interval
          [where st = exampleState and parseDate = exampleParseDate
             and env = lateEnv and cardId = "''A''" and level = 2] late
  have n: "fst (updateCardState exampleParseDate lateEnv ''A'' 2 exampleState) = None"
    by blast
  from updateCardState_fixed_interval
          [where st = exampleState and parseDate = exampleParseDate
             and env = exampleEnv and arg = "Some 1" and cardId = "''A''" and level = 2]
        exampleState_in_range exampleEnv_clock
  have "\<exists>params st'.
          handleNextCard exampleParseDate exampleEnv (Some 1) exampleState
            = Inr (Some params, st')
        \<and> param_nextReviewTime params = update_clock exampleEnv + 90 * 60 * 1000"
    by blast
  then have "\<exists>params st'.
          handleNextCard exampleParseDate exampleEnv (Some 1) exampleState
            = Inr (Some params, st')
        \<and> param_nextReviewTime params = 1714559460000"
    by (simp add: c)
  with exampleState_in_range exampleEnv_clock c late n show ?thesis
    by blast
qed

text \<open>
  C5, as stated, fails. Two clicks on the same card, one minute apart and with
  different increases, compute different pairs of proficiency and due time. When the
  update fails, the pair is in the request that was sent and nowhere else: both clicks
  leave the same state, which holds the error message only.
\<close>

theorem updateCardState_failure_drops_pair:
  "handleNextCard exampleParseDate (failingEnv 1714554060000) (Some 1) exampleState
     = Inr (Some \<lparr>param_action = ''updateVocab'', param_id = ''A'',
                  param_proficiencyLevel = 2, param_nextReviewTime = 1714559460000\<rparr>,
            exampleState\<lparr>error := Some ''Failed to update card: HTTP error! status: 500''\<rparr>)
   \<and> handleNextCard exampleParseDate (failingEnv 1714554120000) (Some 0) exampleState
     = Inr (Some \<lparr>param_action = ''updateVocab'', param_id = ''A'',
                  param_proficiencyLevel = 1, param_nextReviewTime = 1714559520000\<rparr>,
            exampleState\<lparr>error := Some ''Failed to update card: HTTP error! status: 500''\<rparr>)"
  by (simp add: handleNextCard_in_range exampleState_in_range exampleState_current
      updateCardState_def updateParams_def TimeClip_def update_outcome_500
      newProficiency_clamp failingEnv_def exampleCard_def Let_def)

text \<open>
  C5, amended. Let the new due time be a valid date, so that the request is sent, and
  let the update fail in one of the four ways the code knows: the fetch rejects with
  message \<open>m\<close>; the status is outside 200 to 299 and \<open>m\<close> is
  \<open>HTTP error! status:\<close> with the status; the body cannot be read and reading it throws
  with message \<open>m\<close>; or the answer's \<open>success\<close> is false and \<open>m\<close> is the answer's
  message, or \<open>Failed to update card.\<close> when it has none. Then the request with the
  computed pair has been sent, the error becomes \<open>Failed to update card: m\<close>, nothing
  else of the state changes and nothing is fetched again; unless the page is loading, it
  shows that error. The state left behind holds nothing of the computed pair.
\<close>

theorem updateCardState_failure_sets_error:
  assumes "\<bar>update_clock env + 90 * 60 * 1000\<bar> \<le> 8640000000000000"
    and "update_response env = Rejected m
       \<or> (\<exists>status body. update_response env = Response status body
             \<and> \<not> (200 \<le> status \<and> status \<le> 299)
             \<and> m = ''HTTP error! status: '' @ string_of_nat status)
       \<or> (\<exists>status. update_response env = Response status (Inl m)
             \<and> 200 \<le> status \<and> status \<le> 299)
       \<or> (\<exists>status result. update_response env = Response status (Inr result)
             \<and> 200 \<le> status \<and> status \<le> 299 \<and> \<not> success result
             \<and> m = (case message result of
                       None \<Rightarrow> ''Failed to update card.''
                     | Some t \<Rightarrow> if t = [] then ''Failed to update card.'' else t))"
  shows "updateCardState parseDate env cardId level st
           = (Some \<lparr>param_action = ''updateVocab'', param_id = cardId,
                     param_proficiencyLevel = level,
                     param_nextReviewTime = update_clock env + 90 * 60 * 1000\<rparr>,
              st\<lparr>error := Some (''Failed to update card: '' @ m)\<rparr>)
         \<and> (\<not> loading st \<longrightarrow>
              render (snd (updateCardState parseDate env cardId level st))
                = ErrorView (''Failed to update card: '' @ m))"
proof -
  from assms(2) have "update_outcome (update_response env) = Inl m"
    by (auto simp: update_outcome_Rejected update_outcome_not_ok update_outcome_body
        update_outcome_refused)
  with assms(1) show ?thesis
    by (simp add: updateCardState_def updateParams_valid render_def)
qed

theorem updateCardState_failure_sets_error_witness:
  "\<bar>update_clock (answeredEnv (Rejected ''Failed to fetch'')) + 90 * 60 * 1000\<bar>
     \<le> 8640000000000000
   \<and> \<not> loading exampleState
   \<and> render (snd (updateCardState exampleParseDate
                    (answeredEnv (Rejected ''Failed to fetch'')) ''A'' 2 exampleState))
       = ErrorView ''Failed to update card: Failed to fetch''
   \<and> render (snd (updateCardState exampleParseDate
                    (answeredEnv (Response 500 (Inr \<lparr>success = True, message = None\<rparr>)))
                    ''A'' 2 exampleState))
       = ErrorView ''Failed to update card: HTTP error! status: 500''
   \<and> render (snd (updateCardState exampleParseDate
                    (answeredEnv (Response 200 (Inl ''Unexpected end of JSON input'')))
                    ''A'' 2 exampleState))
       = ErrorView ''Failed to update card: Unexpected end of JSON input''
   \<and> render (snd (updateCardState exampleParseDate
                    (answeredEnv (Response 200
                       (Inr \<lparr>success = False, message = Some ''Row not found''\<rparr>)))
                    ''A'' 2 exampleState))
       = ErrorView ''Failed to update card: Row not found''
   \<and> render (snd (updateCardState exampleParseDate
                    (answeredEnv (Response 200 (Inr \<lparr>success = False, message = None\<rparr>)))
                    ''A'' 2 exampleState))
       = ErrorView ''Failed to update card: Failed to update card.''"
proof -
  have l: "\<not> loading exampleState"
    by (simp add: exampleState_def)
  have k: "\<bar>update_clock (answeredEnv q) + 5400000\<bar> \<le> 8640000000000000" for q
    using answeredEnv_clock [of q] by simp
  have "\<not> loading exampleState \<longrightarrow> render (snd (updateCardState exampleParseDate
                    (answeredEnv (Rejected ''Failed to fetch'')) ''A'' 2 exampleState))
       = ErrorView (''Failed to update card: '' @ ''Failed to fetch'')"
    by (rule updateCardState_failure_sets_error
            [where env = "answeredEnv (Rejected ''Failed to fetch'')"
               and m = "''Failed to fetch''" and parseDate = exampleParseDate
               and cardId = "''A''" and level = 2 and st = exampleState,
               THEN conjunct2])
       (simp_all add: k answeredEnv_response)
  with l have a: "render (snd (updateCardState exampleParseDate
                    (answeredEnv (Rejected ''Failed to fetch'')) ''A'' 2 exampleState))
       = ErrorView ''Failed to update card: Failed to fetch''"
    by simp
  have "\<not> loading exampleState \<longrightarrow> render (snd (updateCardState exampleParseDate
                    (answeredEnv (Response 500 (Inr \<lparr>success = True, message = None\<rparr>)))
                    ''A'' 2 exampleState))
       = ErrorView (''Failed to update card: '' @ ''HTTP error! status: 500'')"
    by (rule updateCardState_failure_sets_error
            [where env = "answeredEnv (Response 500 (Inr \<lparr>success = True, message = None\<rparr>))"
               and m = "''HTTP error! status: 500''" and parseDate = exampleParseDate
               and cardId = "''A''" and level = 2 and st = exampleState,
               THEN conjunct2])
       (simp_all add: k answeredEnv_response string_of_nat_500)
  with l have b: "render (snd (updateCardState exampleParseDate
                    (answeredEnv (Response 500 (Inr \<lparr>success = True, message = None\<rparr>)))
                    ''A'' 2 exampleState))
       = ErrorView ''Failed to update card: HTTP error! status: 500''"
    by simp
  have "\<not> loading exampleState \<longrightarrow> render (snd (updateCardState exampleParseDate
                    (answeredEnv (Response 200 (Inl ''Unexpected end of JSON input'')))
                    ''A'' 2 exampleState))
       = ErrorView (''Failed to update card: '' @ ''Unexpected end of JSON input'')"
    by (rule updateCardState_failure_sets_error
            [where env = "answeredEnv (Response 200 (Inl ''Unexpected end of JSON input''))"
               and m = "''Unexpected end of JSON input''" and parseDate = exampleParseDate
               and cardId = "''A''" and level = 2 and st = exampleState,
               THEN conjunct2])
       (simp_all add: k answeredEnv_response)
  with l have c: "render (snd (updateCardState exampleParseDate
                    (answeredEnv (Response 200 (Inl ''Unexpected end of JSON input'')))
                    ''A'' 2 exampleState))
       = ErrorView ''Failed to update card: Unexpected end of JSON input''"
    by simp
  have "\<not> loading exampleState \<longrightarrow> render (snd (updateCardState exampleParseDate
                    (answeredEnv (Response 200
                       (Inr \<lparr>success = False, message = Some ''Row not found''\<rparr>)))
                    ''A'' 2 exampleState))
       = ErrorView (''Failed to update card: '' @ ''Row not found'')"
    by (rule updateCardState_failure_sets_error
            [where env = "answeredEnv (Response 200
                       (Inr \<lparr>success = False, message = Some ''Row not found''\<rparr>))"
               and m = "''Row not found''" and parseDate = exampleParseDate
               and cardId = "''A''" and level = 2 and st = exampleState,
               THEN conjunct2])
       (simp_all add: k answeredEnv_response)
  with l have d: "render (snd (updateCardState exampleParseDate
                    (answeredEnv (Response 200
                       (Inr \<lparr>success = False, message = Some ''Row not found''\<rparr>)))
                    ''A'' 2 exampleState))
       = ErrorView ''Failed to update card: Row not found''"
    by simp
  have "\<not> loading exampleState \<longrightarrow> render (snd (updateCardState exampleParseDate
                    (answeredEnv (Response 200 (Inr \<lparr>success = False, message = None\<rparr>)))
                    ''A'' 2 exampleState))
       = ErrorView (''Failed to update card: '' @ ''Failed to update card.'')"
    by (rule updateCardState_failure_sets_error
            [where env = "answeredEnv (Response 200 (Inr \<lparr>success = False, message = None\<rparr>))"
               and m = "''Failed to update card.''" and parseDate = exampleParseDate
               and cardId = "''A''" and level = 2 and st = exampleState,
               THEN conjunct2])
       (simp_all add: k answeredEnv_response)
  with l have e: "render (snd (updateCardState exampleParseDate
                    (answeredEnv (Response 200 (Inr \<lparr>success = False, message = None\<rparr>)))
                    ''A'' 2 exampleState))
       = ErrorView ''Failed to update card: Failed to update card.''"
    by simp
  from answeredEnv_clock [of "Rejected ''Failed to fetch''"] l a b c d e show ?thesis
    by blast
qed

text \<open>
  C10. With no due cards the handler does nothing, whatever its argument: no request
  is sent and the state is returned as it was.
\<close>

theorem handleNextCard_empty_noop:
  assumes "vocabCards st = []"
  shows "handleNextCard parseDate env arg st = Inr (None, st)"
  using assms by (simp add: handleNextCard_def)

theorem handleNextCard_empty_noop_witness:
  "vocabCards (initialState\<lparr>loading := False\<rparr>) = []
   \<and> handleNextCard exampleParseDate exampleEnv (Some 1) (initialState\<lparr>loading := False\<rparr>)
       = Inr (None, initialState\<lparr>loading := False\<rparr>)"
proof -
  have e: "vocabCards (initialState\<lparr>loading := False\<rparr>) = []"
    by (simp add: initialState_def)
  show ?thesis
    using handleNextCard_empty_noop
            [OF e, where parseDate = exampleParseDate and env = exampleEnv
               and arg = "Some 1"] e
    by simp
qed

subsection \<open>The fetch\<close>

lemma fetchVocabCards_success:
  assumes "fetch_json r = Inr data"
  shows "fetchVocabCards P r now st =
    \<lparr>vocabCards = dueCards P now data, currentCardIndex = 0, loading = False, error = None\<rparr>"
  using assms by (simp add: fetchVocabCards_def Let_def)

lemma fetchVocabCards_failure:
  assumes "fetch_json r = Inl m"
  shows "fetchVocabCards P r now st =
    st\<lparr>loading := False, error := Some (''Failed to fetch vocabulary: '' @ m)\<rparr>"
  using assms by (simp add: fetchVocabCards_def Let_def)

lemma render_success_not_error:
  assumes "fetch_json r = Inr data"
  shows "render (fetchVocabCards P r now st) \<noteq> ErrorView e"
  using assms by (simp add: fetchVocabCards_success render_def cardsView_def)

text \<open>
  C6. Let the fetch fail in one of the three ways the code knows: the request rejects
  with message \<open>m\<close>; the status is outside 200 to 299 and \<open>m\<close> is
  \<open>HTTP error! status:\<close> with the status; or the body cannot be used and reading it
  throws with message \<open>m\<close>. Then the error becomes \<open>Failed to fetch vocabulary: m\<close>
  and the page shows it. That page is not the page for an empty due list, which a
  successful fetch with no due card gives, and it differs from the page after any
  successful fetch.
\<close>

theorem fetch_failure_is_not_empty_queue:
  assumes "r = Rejected m
       \<or> (\<exists>status body. r = Response status body
             \<and> \<not> (200 \<le> status \<and> status \<le> 299)
             \<and> m = ''HTTP error! status: '' @ string_of_nat status)
       \<or> (\<exists>status. r = Response status (Inl m) \<and> 200 \<le> status \<and> status \<le> 299)"
  shows "error (fetchVocabCards parseDate r now st) = Some (''Failed to fetch vocabulary: '' @ m)
    \<and> render (fetchVocabCards parseDate r now st) = ErrorView (''Failed to fetch vocabulary: '' @ m)
    \<and> render (fetchVocabCards parseDate r now st) \<noteq> NoCardsDueView
    \<and> (\<forall>status' data now' st'. 200 \<le> status' \<and> status' \<le> 299 \<longrightarrow>
          render (fetchVocabCards parseDate (Response status' (Inr data)) now' st')
            \<noteq> render (fetchVocabCards parseDate r now st))
    \<and> (\<forall>status' data now' st'. 200 \<le> status' \<and> status' \<le> 299 \<longrightarrow>
          dueCards parseDate now' data = [] \<longrightarrow>
          render (fetchVocabCards parseDate (Response status' (Inr data)) now' st')
            = NoCardsDueView)"
proof -
  from assms have f: "fetch_json r = Inl m"
    by (auto simp: fetch_json_Rejected fetch_json_not_ok fetch_json_ok)
  have v: "render (fetchVocabCards parseDate r now st)
             = ErrorView (''Failed to fetch vocabulary: '' @ m)"
    using f by (simp add: fetchVocabCards_failure render_def)
  have e: "error (fetchVocabCards parseDate r now st)
             = Some (''Failed to fetch vocabulary: '' @ m)"
    using f by (simp add: fetchVocabCards_failure)
  have d: "\<forall>status' data now' st'. 200 \<le> status' \<and> status' \<le> 299 \<longrightarrow>
          render (fetchVocabCards parseDate (Response status' (Inr data)) now' st')
            \<noteq> render (fetchVocabCards parseDate r now st)"
    unfolding v by (simp add: render_success_not_error fetch_json_ok)
  have z: "\<forall>status' data now' st'. 200 \<le> status' \<and> status' \<le> 299 \<longrightarrow>
          dueCards parseDate now' data = [] \<longrightarrow>
          render (fetchVocabCards parseDate (Response status' (Inr data)) now' st')
            = NoCardsDueView"
    by (simp add: fetchVocabCards_success fetch_json_ok render_def cardsView_def)
  from v e d z show ?thesis by simp
qed

theorem fetch_failure_is_not_empty_queue_witness:
  "dueCards exampleParseDate exampleNow [] = []
   \<and> render (fetchVocabCards exampleParseDate (Rejected ''Failed to fetch'') exampleNow initialState)
       = ErrorView ''Failed to fetch vocabulary: Failed to fetch''
   \<and> render (fetchVocabCards exampleParseDate (Response 500 (Inr [])) exampleNow initialState)
       = ErrorView ''Failed to fetch vocabulary: HTTP error! status: 500''
   \<and> render (fetchVocabCards exampleParseDate (Response 200 (Inl ''Unexpected end of JSON input''))
               exampleNow initialState)
       = ErrorView ''Failed to fetch vocabulary: Unexpected end of JSON input''
   \<and> render (fetchVocabCards exampleParseDate (Response 200 (Inr [])) exampleNow initialState)
       = NoCardsDueView"
proof -
  have n: "dueCards exampleParseDate exampleNow [] = []"
    by (simp add: dueCards_def)
  note t = fetch_failure_is_not_empty_queue
             [where r = "Rejected ''Failed to fetch''" and m = "''Failed to fetch''"
                and parseDate = exampleParseDate and now = exampleNow and st = initialState]
  have t': "error (fetchVocabCards exampleParseDate (Rejected ''Failed to fetch'') exampleNow
                     initialState) = Some (''Failed to fetch vocabulary: '' @ ''Failed to fetch'')
    \<and> render (fetchVocabCards exampleParseDate (Rejected ''Failed to fetch'') exampleNow
                initialState) = ErrorView (''Failed to fetch vocabulary: '' @ ''Failed to fetch'')
    \<and> render (fetchVocabCards exampleParseDate (Rejected ''Failed to fetch'') exampleNow
                initialState) \<noteq> NoCardsDueView
    \<and> (\<forall>status' data now' st'. 200 \<le> status' \<and> status' \<le> 299 \<longrightarrow>
          render (fetchVocabCards exampleParseDate (Response status' (Inr data)) now' st')
            \<noteq> render (fetchVocabCards exampleParseDate (Rejected ''Failed to fetch'')
                         exampleNow initialState))
    \<and> (\<forall>status' data now' st'. 200 \<le> status' \<and> status' \<le> 299 \<longrightarrow>
          dueCards exampleParseDate now' data = [] \<longrightarrow>
          render (fetchVocabCards exampleParseDate (Response status' (Inr data)) now' st')
            = NoCardsDueView)"
    by (rule t) simp
  then have "render (fetchVocabCards exampleParseDate (Rejected ''Failed to fetch'')
                         exampleNow initialState)
                 = ErrorView (''Failed to fetch vocabulary: '' @ ''Failed to fetch'')"
    by blast
  then have a: "render (fetchVocabCards exampleParseDate (Rejected ''Failed to fetch'')
                         exampleNow initialState)
                 = ErrorView ''Failed to fetch vocabulary: Failed to fetch''"
    by simp
  have k: "(200::nat) \<le> 200 \<and> (200::nat) \<le> 299"
    by simp
  from t' k n have e: "render (fetchVocabCards exampleParseDate (Response 200 (Inr []))
                         exampleNow initialState) = NoCardsDueView"
    by blast
  have "render (fetchVocabCards exampleParseDate (Response 500 (Inr [])) exampleNow initialState)
       = ErrorView (''Failed to fetch vocabulary: '' @ ''HTTP error! status: 500'')"
    using fetch_failure_is_not_empty_queue
             [where r = "Response 500 (Inr [])" and m = "''HTTP error! status: 500''"
                and parseDate = exampleParseDate and now = exampleNow and st = initialState]
    by (simp add: string_of_nat_500)
  then have b: "render (fetchVocabCards exampleParseDate (Response 500 (Inr [])) exampleNow
                          initialState)
       = ErrorView ''Failed to fetch vocabulary: HTTP error! status: 500''"
    by simp
  have "render (fetchVocabCards exampleParseDate (Response 200 (Inl ''Unexpected end of JSON input''))
               exampleNow initialState)
       = ErrorView (''Failed to fetch vocabulary: '' @ ''Unexpected end of JSON input'')"
    using fetch_failure_is_not_empty_queue
             [where r = "Response 200 (Inl ''Unexpected end of JSON input'')"
                and m = "''Unexpected end of JSON input''"
                and parseDate = exampleParseDate and now = exampleNow and st = initialState]
    by simp
  then have c: "render (fetchVocabCards exampleParseDate
                          (Response 200 (Inl ''Unexpected end of JSON input''))
                          exampleNow initialState)
       = ErrorView ''Failed to fetch vocabulary: Unexpected end of JSON input''"
    by simp
  from n a b c e show ?thesis
    by blast
qed

text \<open>
  C7, as stated, fails. \<open>fetchVocabCards\<close> takes no argument, reads the clock itself
  and does not return the due list: it writes the state. On the initial state and a
  successful fetch it turns the loading flag off, besides storing the due list.
\<close>

theorem fetchVocabCards_changes_state:
  "loading initialState
   \<and> \<not> loading (fetchVocabCards exampleParseDate (Response 200 (Inr exampleData))
                  exampleNow initialState)
   \<and> fetchVocabCards exampleParseDate (Response 200 (Inr exampleData)) exampleNow initialState
       \<noteq> initialState\<lparr>vocabCards := exampleDue\<rparr>"
  by (simp add: fetchVocabCards_success fetch_json_200 initialState_def)

text \<open>
  C7, amended. After a successful fetch the whole state is a function of the fetched
  snapshot and of the clock reading taken inside the call, and of nothing else: the
  due list is \<open>dueCards\<close> of the two, the index is 0, the loading flag is off and the
  error is cleared. So two runs on the same snapshot at the same clock reading leave
  the same due list, whatever the state before, and every card of that list is a card
  of the snapshot as it came.
\<close>

theorem fetchVocabCards_success_state:
  assumes "fetch_json r = Inr data"
  shows "fetchVocabCards parseDate r now st =
           \<lparr>vocabCards = dueCards parseDate now data, currentCardIndex = 0,
            loading = False, error = None\<rparr>
         \<and> fetchVocabCards parseDate r now st' = fetchVocabCards parseDate r now st
         \<and> set (vocabCards (fetchVocabCards parseDate r now st)) \<subseteq> set data"
  using assms by (auto simp: fetchVocabCards_success set_dueCards)

theorem fetchVocabCards_success_state_witness:
  "fetch_json (Response 200 (Inr exampleData)) = Inr exampleData
   \<and> fetchVocabCards exampleParseDate (Response 200 (Inr exampleData)) exampleNow initialState
       = exampleState
   \<and> fetchVocabCards exampleParseDate (Response 200 (Inr exampleData)) exampleNow exampleState
       = exampleState"
proof -
  have s: "fetch_json (Response 200 (Inr exampleData)) = Inr exampleData"
    by (simp add: fetch_json_200)
  show ?thesis
    using fetchVocabCards_success_state
            [OF s, where parseDate = exampleParseDate and now = exampleNow
               and st = initialState and st' = exampleState] s
    by (simp add: dueCards_example exampleState_def)
qed

text \<open>
  C8. The due list of the empty snapshot is empty at every clock reading. A fetch that
  brings the empty snapshot stores the empty list with no error, and the page then
  says that no cards are due.
\<close>

theorem empty_snapshot_nothing_due:
  "dueCards parseDate now [] = []
   \<and> (fetch_json r = Inr [] \<longrightarrow>
        vocabCards (fetchVocabCards parseDate r now st) = []
      \<and> error (fetchVocabCards parseDate r now st) = None
      \<and> render (fetchVocabCards parseDate r now st) = NoCardsDueView)"
proof -
  have n: "dueCards parseDate now [] = []"
    by (simp add: dueCards_def)
  then show ?thesis
    by (simp add: fetchVocabCards_success render_def cardsView_def)
qed

theorem empty_snapshot_nothing_due_witness:
  "fetch_json (Response 200 (Inr []) :: VocabCard list response) = Inr []
   \<and> vocabCards (fetchVocabCards exampleParseDate (Response 200 (Inr [])) exampleNow
                   initialState) = []
   \<and> error (fetchVocabCards exampleParseDate (Response 200 (Inr [])) exampleNow
              initialState) = None
   \<and> render (fetchVocabCards exampleParseDate (Response 200 (Inr [])) exampleNow
               initialState) = NoCardsDueView"
proof -
  have s: "fetch_json (Response 200 (Inr []) :: VocabCard list response) = Inr []"
    by (simp add: fetch_json_200)
  show ?thesis
    using empty_snapshot_nothing_due
            [where parseDate = exampleParseDate and now = exampleNow
               and r = "Response 200 (Inr [])" and st = initialState] s
    by blast
qed

text \<open>
  C9. A card whose date does not parse is in no due list, at any clock reading, and it
  raises no error: a fetch that brings it ends with the error cleared and the card left
  out.
\<close>

theorem invalid_date_never_due:
  assumes "parseDate (NextReviewTime c) = None"
  shows "c \<notin> set (dueCards parseDate now S)
    \<and> (fetch_json r = Inr S \<longrightarrow>
         error (fetchVocabCards parseDate r now st) = None
       \<and> c \<notin> set (vocabCards (fetchVocabCards parseDate r now st)))"
proof -
  have "\<not> isDue parseDate now c"
    using assms by (simp add: isDue_iff)
  then have "c \<notin> set (dueCards parseDate now S)"
    by (simp add: set_dueCards)
  then show ?thesis
    by (simp add: fetchVocabCards_success)
qed

theorem invalid_date_never_due_witness:
  "exampleParseDate (NextReviewTime (exampleCard ''X'' 3 ''soon'')) = None
   \<and> exampleCard ''X'' 3 ''soon'' \<in> set exampleData
   \<and> fetch_json (Response 200 (Inr exampleData)) = Inr exampleData
   \<and> exampleCard ''X'' 3 ''soon'' \<notin> set (dueCards exampleParseDate exampleNow exampleData)
   \<and> error (fetchVocabCards exampleParseDate (Response 200 (Inr exampleData)) exampleNow
              initialState) = None"
proof -
  have p: "exampleParseDate (NextReviewTime (exampleCard ''X'' 3 ''soon'')) = None"
    by (simp add: exampleParseDate_def exampleCard_def)
  have i: "exampleCard ''X'' 3 ''soon'' \<in> set exampleData"
    by (simp add: exampleData_def)
  have s: "fetch_json (Response 200 (Inr exampleData)) = Inr exampleData"
    by (simp add: fetch_json_200)
  show ?thesis
    using invalid_date_never_due
            [where parseDate = exampleParseDate and c = "exampleCard ''X'' 3 ''soon''"
               and now = exampleNow and S = exampleData
               and r = "Response 200 (Inr exampleData)" and st = initialState] p i s
    by blast
qed

end
